theory Spec2Isabelle
  imports Complex_Main
begin

section \<open>JavaScript numbers\<close>

text \<open>
  Every number of \<^verbatim>\<open>src/App.js\<close> is a JavaScript Number. The model keeps the three
  special values apart from the finite ones, because the program never raises on a
  division by zero: it goes on with \<^verbatim>\<open>Infinity\<close> or \<^verbatim>\<open>NaN\<close>, and every comparison with
  \<^verbatim>\<open>NaN\<close> is false. Finite values are real numbers and finite arithmetic is exact:
  rounding to 53 bits, overflow, underflow and the sign of zero are not modelled (the
  only zero is \<open>Fin 0\<close>, read as \<^verbatim>\<open>+0\<close>).
\<close>

datatype jsnum = Fin real | PInf | NInf | NaN

fun js_neg :: "jsnum \<Rightarrow> jsnum" where
  "js_neg (Fin x) = Fin (- x)"
| "js_neg PInf = NInf"
| "js_neg NInf = PInf"
| "js_neg NaN = NaN"

fun js_add :: "jsnum \<Rightarrow> jsnum \<Rightarrow> jsnum" where
  "js_add NaN b = NaN"
| "js_add a NaN = NaN"
| "js_add (Fin x) (Fin y) = Fin (x + y)"
| "js_add PInf NInf = NaN"
| "js_add NInf PInf = NaN"
| "js_add PInf b = PInf"
| "js_add NInf b = NInf"
| "js_add (Fin x) b = b"

definition js_sub :: "jsnum \<Rightarrow> jsnum \<Rightarrow> jsnum" where
  "js_sub a b = js_add a (js_neg b)"

text \<open>The sign of an infinite product or quotient: \<open>inf_of True\<close> is \<^verbatim>\<open>+Infinity\<close>.\<close>

definition inf_of :: "bool \<Rightarrow> jsnum" where
  "inf_of positive = (if positive then PInf else NInf)"

fun js_mul :: "jsnum \<Rightarrow> jsnum \<Rightarrow> jsnum" where
  "js_mul NaN b = NaN"
| "js_mul a NaN = NaN"
| "js_mul (Fin x) (Fin y) = Fin (x * y)"
| "js_mul (Fin x) PInf = (if x = 0 then NaN else inf_of (0 < x))"
| "js_mul (Fin x) NInf = (if x = 0 then NaN else inf_of (x < 0))"
| "js_mul PInf (Fin y) = (if y = 0 then NaN else inf_of (0 < y))"
| "js_mul NInf (Fin y) = (if y = 0 then NaN else inf_of (y < 0))"
| "js_mul PInf PInf = PInf"
| "js_mul PInf NInf = NInf"
| "js_mul NInf PInf = NInf"
| "js_mul NInf NInf = PInf"

fun js_div :: "jsnum \<Rightarrow> jsnum \<Rightarrow> jsnum" where
  "js_div NaN b = NaN"
| "js_div a NaN = NaN"
| "js_div (Fin x) (Fin y) =
     (if y = 0 then (if x = 0 then NaN else inf_of (0 < x)) else Fin (x / y))"
| "js_div (Fin x) b = Fin 0"
| "js_div PInf (Fin y) = inf_of (0 \<le> y)"
| "js_div NInf (Fin y) = inf_of (y < 0)"
| "js_div a b = NaN"

text \<open>The relational operators. With \<^verbatim>\<open>NaN\<close> on either side each of them is false.\<close>

fun js_lt :: "jsnum \<Rightarrow> jsnum \<Rightarrow> bool" where
  "js_lt NaN b = False"
| "js_lt a NaN = False"
| "js_lt (Fin x) (Fin y) = (x < y)"
| "js_lt a NInf = False"
| "js_lt PInf b = False"
| "js_lt a b = True"

fun js_le :: "jsnum \<Rightarrow> jsnum \<Rightarrow> bool" where
  "js_le NaN b = False"
| "js_le a NaN = False"
| "js_le (Fin x) (Fin y) = (x \<le> y)"
| "js_le NInf b = True"
| "js_le a PInf = True"
| "js_le a b = False"

definition js_gt :: "jsnum \<Rightarrow> jsnum \<Rightarrow> bool" where
  "js_gt a b = js_lt b a"

definition js_ge :: "jsnum \<Rightarrow> jsnum \<Rightarrow> bool" where
  "js_ge a b = js_le b a"

text \<open>\<^verbatim>\<open>Math.min\<close>, \<^verbatim>\<open>Math.sqrt\<close>, \<^verbatim>\<open>Math.tanh\<close> and \<^verbatim>\<open>Math.pow\<close>.\<close>

fun js_min :: "jsnum \<Rightarrow> jsnum \<Rightarrow> jsnum" where
  "js_min NaN b = NaN"
| "js_min a NaN = NaN"
| "js_min a b = (if js_lt b a then b else a)"

fun js_sqrt :: "jsnum \<Rightarrow> jsnum" where
  "js_sqrt (Fin x) = (if x < 0 then NaN else Fin (sqrt x))"
| "js_sqrt PInf = PInf"
| "js_sqrt NInf = NaN"
| "js_sqrt NaN = NaN"

fun js_tanh :: "jsnum \<Rightarrow> jsnum" where
  "js_tanh (Fin x) = Fin (tanh x)"
| "js_tanh PInf = Fin 1"
| "js_tanh NInf = Fin (- 1)"
| "js_tanh NaN = NaN"

text \<open>
  \<^verbatim>\<open>Math.pow(base, exponent)\<close> by the cases of \<^verbatim>\<open>Number::exponentiate\<close>, in their order.
  A negative base with an exponent that is not an integer gives \<^verbatim>\<open>NaN\<close>.
\<close>

definition is_integer :: "real \<Rightarrow> bool" where
  "is_integer y = (of_int \<lfloor>y\<rfloor> = y)"

definition is_odd_integer :: "real \<Rightarrow> bool" where
  "is_odd_integer y = (is_integer y \<and> odd \<lfloor>y\<rfloor>)"

fun js_pow :: "jsnum \<Rightarrow> jsnum \<Rightarrow> jsnum" where
  "js_pow b NaN = NaN"
| "js_pow b (Fin y) =
     (if y = 0 then Fin 1
      else case b of
        NaN \<Rightarrow> NaN
      | PInf \<Rightarrow> (if 0 < y then PInf else Fin 0)
      | NInf \<Rightarrow> (if 0 < y then (if is_odd_integer y then NInf else PInf) else Fin 0)
      | Fin x \<Rightarrow>
          (if x = 0 then (if 0 < y then Fin 0 else PInf)
           else if 0 < x then Fin (x powr y)
           else if is_integer y
             then Fin ((if is_odd_integer y then - 1 else 1) * (\<bar>x\<bar> powr y))
           else NaN))"
| "js_pow NaN PInf = NaN"
| "js_pow NaN NInf = NaN"
| "js_pow PInf PInf = PInf"
| "js_pow PInf NInf = Fin 0"
| "js_pow NInf PInf = PInf"
| "js_pow NInf NInf = Fin 0"
| "js_pow (Fin x) PInf =
     (if x = 0 then Fin 0 else if 1 < \<bar>x\<bar> then PInf else if \<bar>x\<bar> = 1 then NaN else Fin 0)"
| "js_pow (Fin x) NInf =
     (if x = 0 then PInf else if 1 < \<bar>x\<bar> then Fin 0 else if \<bar>x\<bar> = 1 then NaN else PInf)"

section \<open>Static registries\<close>

text \<open>The keys of \<^verbatim>\<open>ASSETS\<close> and of \<^verbatim>\<open>TIMEFRAMES\<close>; the two selects offer no other value.\<close>

datatype asset = BTC | ETH | SOL | LINK | DOGE

datatype timeframe = H1 | H4 | H24 | H48 | D3 | D7 | D14 | D30

fun volatility :: "asset \<Rightarrow> jsnum" where
  "volatility BTC = Fin 0.02"
| "volatility ETH = Fin 0.025"
| "volatility SOL = Fin 0.035"
| "volatility LINK = Fin 0.04"
| "volatility DOGE = Fin 0.06"

fun TIMEFRAMES :: "timeframe \<Rightarrow> jsnum" where
  "TIMEFRAMES H1 = Fin 1"
| "TIMEFRAMES H4 = Fin 4"
| "TIMEFRAMES H24 = Fin 24"
| "TIMEFRAMES H48 = Fin 48"
| "TIMEFRAMES D3 = Fin 72"
| "TIMEFRAMES D7 = Fin 168"
| "TIMEFRAMES D14 = Fin 336"
| "TIMEFRAMES D30 = Fin 720"

definition RANGE_LIMITS_narrow :: jsnum where
  "RANGE_LIMITS_narrow = Fin 0.01"

definition RANGE_LIMITS_wide :: jsnum where
  "RANGE_LIMITS_wide = Fin 0.30"

definition TREASURY_SIZE :: jsnum where
  "TREASURY_SIZE = Fin 20000"

definition MAX_PAYOUT_PERCENTAGE :: jsnum where
  "MAX_PAYOUT_PERCENTAGE = Fin 0.10"

section \<open>Pricing functions\<close>

definition calculateTimeScaledVolatility :: "asset \<Rightarrow> jsnum \<Rightarrow> jsnum \<Rightarrow> jsnum" where
  "calculateTimeScaledVolatility assetKey timeframeHours price =
     (let vol = volatility assetKey;
          multiplier =
            (if js_le timeframeHours (Fin 1) then Fin 1.3
             else if js_le timeframeHours (Fin 4) then Fin 1.2
             else if js_le timeframeHours (Fin 24) then Fin 1.1
             else Fin 1.0)
      in js_mul (js_mul vol (js_sqrt (js_div timeframeHours (Fin 24)))) multiplier)"

definition normalCDF :: "jsnum \<Rightarrow> jsnum" where
  "normalCDF z =
     js_mul (Fin 0.5) (js_add (Fin 1) (js_tanh (js_mul (js_sqrt (js_div (Fin pi) (Fin 8))) z)))"

definition calculateWinProbability ::
  "asset \<Rightarrow> jsnum \<Rightarrow> jsnum \<Rightarrow> jsnum \<Rightarrow> jsnum \<Rightarrow> jsnum" where
  "calculateWinProbability assetKey lowerBound upperBound timeframeHours price =
     (let stdDev = js_mul price (calculateTimeScaledVolatility assetKey timeframeHours price);
          z1 = js_div (js_sub lowerBound price) stdDev;
          z2 = js_div (js_sub upperBound price) stdDev;
          probability = js_sub (normalCDF z2) (normalCDF z1)
      in js_min probability (Fin 0.25))"

text \<open>The default value of the parameter \<^verbatim>\<open>houseEdge\<close>.\<close>

definition default_houseEdge :: jsnum where
  "default_houseEdge = Fin 0.07"

definition calculatePayoutOdds :: "jsnum \<Rightarrow> jsnum \<Rightarrow> jsnum" where
  "calculatePayoutOdds probability houseEdge =
     js_mul (js_div (Fin 1) probability) (js_sub (Fin 1) houseEdge)"

definition isRangeValid :: "jsnum \<Rightarrow> jsnum \<Rightarrow> jsnum \<Rightarrow> bool" where
  "isRangeValid lowerBound upperBound price =
     (let width = js_div (js_sub upperBound lowerBound) price
      in js_ge width RANGE_LIMITS_narrow \<and> js_le width RANGE_LIMITS_wide)"

section \<open>Number formatting\<close>

text \<open>
  A value that is either a Number or a String: \<^verbatim>\<open>getCombinedPayout\<close> returns the String
  made by \<^verbatim>\<open>toFixed(2)\<close> on one branch and the Number \<^verbatim>\<open>0\<close> on the other.
  \<open>NumberToString x\<close> stands for the String that \<^verbatim>\<open>Number::toString\<close> gives for a finite
  \<open>x\<close> of magnitude at least \<open>10^21\<close> (exponent notation); its characters are not
  modelled.
\<close>

datatype jsval = Num jsnum | Str string | NumberToString real

definition digit :: "nat \<Rightarrow> char" where
  "digit d = ''0123456789'' ! d"

fun decimal :: "nat \<Rightarrow> string" where
  "decimal n = (if n < 10 then [digit n] else decimal (n div 10) @ [digit (n mod 10)])"

declare decimal.simps [simp del]

text \<open>
  \<^verbatim>\<open>Number.prototype.toFixed\<close> with two fraction digits: the integer \<open>n\<close> with \<open>n / 100\<close>
  nearest to the magnitude (the larger one on a tie), written in decimal, padded with
  zeros to three characters, with the point before the last two; the sign in front.
\<close>

definition toFixed2_digits :: "real \<Rightarrow> string" where
  "toFixed2_digits x =
     (let n = nat \<lfloor>x * 100 + 1 / 2\<rfloor>;
          m = decimal n;
          m = replicate (3 - length m) (CHR ''0'') @ m;
          k = length m
      in take (k - 2) m @ ''.'' @ drop (k - 2) m)"

fun toFixed2 :: "jsnum \<Rightarrow> jsval" where
  "toFixed2 NaN = Str ''NaN''"
| "toFixed2 PInf = Str ''Infinity''"
| "toFixed2 NInf = Str ''-Infinity''"
| "toFixed2 (Fin x) =
     (if 10 ^ 21 \<le> \<bar>x\<bar> then NumberToString x
      else if x < 0 then Str (''-'' @ toFixed2_digits (- x))
      else Str (toFixed2_digits x))"

section \<open>Component state\<close>

record leg =
  asset :: asset
  timeframe :: timeframe
  lowerBound :: jsnum
  upperBound :: jsnum
  probability :: jsnum
  payoutOdds :: jsnum

record ticket =
  id_ticket :: nat
  legs :: "leg list"
  betAmount :: jsnum
  timestamp :: string
  result :: string
  combinedPayout :: jsval

text \<open>The nine \<^verbatim>\<open>useState\<close> cells of \<^verbatim>\<open>ParlayBuilder\<close>.\<close>

record state =
  legs :: "leg list"
  selectedAsset :: asset
  timeframe :: timeframe
  lowerBound :: jsnum
  upperBound :: jsnum
  betAmount :: jsnum
  history :: "ticket list"
  error :: string
  livePrice :: jsnum

definition initial :: state where
  "initial =
     \<lparr>state.legs = [], selectedAsset = BTC, state.timeframe = H24, state.lowerBound = Fin 0,
      state.upperBound = Fin 0, state.betAmount = Fin 100, history = [], error = [],
      livePrice = Fin 0\<rparr>"

text \<open>
  Each handler is one function from the state of the render it closes over to the state
  after its setter calls: a render takes place between two events. What a handler reads
  from outside (the clock) is an argument.
\<close>

definition setSelectedAsset :: "asset \<Rightarrow> state \<Rightarrow> state" where
  "setSelectedAsset a s = s\<lparr>selectedAsset := a\<rparr>"

definition setTimeframe :: "timeframe \<Rightarrow> state \<Rightarrow> state" where
  "setTimeframe t s = s\<lparr>state.timeframe := t\<rparr>"

definition setLowerBound :: "jsnum \<Rightarrow> state \<Rightarrow> state" where
  "setLowerBound x s = s\<lparr>state.lowerBound := x\<rparr>"

definition setUpperBound :: "jsnum \<Rightarrow> state \<Rightarrow> state" where
  "setUpperBound x s = s\<lparr>state.upperBound := x\<rparr>"

definition setBetAmount :: "jsnum \<Rightarrow> state \<Rightarrow> state" where
  "setBetAmount x s = s\<lparr>state.betAmount := x\<rparr>"

text \<open>\<^verbatim>\<open>fetchPrice\<close> ends in \<^verbatim>\<open>setLivePrice\<close>: the price of the feed, or \<^verbatim>\<open>0\<close> when it failed.\<close>

definition setLivePrice :: "jsnum \<Rightarrow> state \<Rightarrow> state" where
  "setLivePrice x s = s\<lparr>livePrice := x\<rparr>"

section \<open>Leg builder\<close>

text \<open>
  \<^verbatim>\<open>addLeg\<close>, with the calls it makes to the probability engine written down beside the
  state it leaves: the list is empty on the path that returns early.
\<close>

datatype engine_call = WinProbabilityCall asset jsnum jsnum jsnum jsnum

definition range_error :: string where
  "range_error = ''Range width must be between 1% and 30% of the current asset price.''"

definition addLeg_traced :: "state \<Rightarrow> engine_call list \<times> state" where
  "addLeg_traced s =
     (if \<not> isRangeValid (state.lowerBound s) (state.upperBound s) (livePrice s)
      then ([], s\<lparr>error := range_error\<rparr>)
      else
        let timeframeHours = TIMEFRAMES (state.timeframe s);
            probability =
              calculateWinProbability (selectedAsset s) (state.lowerBound s) (state.upperBound s)
                timeframeHours (livePrice s);
            payoutOdds = calculatePayoutOdds probability default_houseEdge
        in ([WinProbabilityCall (selectedAsset s) (state.lowerBound s) (state.upperBound s)
               timeframeHours (livePrice s)],
            s\<lparr>error := [],
              state.legs := state.legs s @
                [\<lparr>asset = selectedAsset s, leg.timeframe = state.timeframe s,
                  leg.lowerBound = state.lowerBound s, leg.upperBound = state.upperBound s,
                  probability = probability, payoutOdds = payoutOdds\<rparr>]\<rparr>))"

definition addLeg :: "state \<Rightarrow> state" where
  "addLeg s = snd (addLeg_traced s)"

text \<open>\<^verbatim>\<open>legs.filter((_, i) => i !== index)\<close>.\<close>

definition removeLeg :: "nat \<Rightarrow> state \<Rightarrow> state" where
  "removeLeg index s =
     s\<lparr>state.legs := map snd (filter (\<lambda>(i, _). i \<noteq> index) (enumerate 0 (state.legs s)))\<rparr>"

section \<open>Parlay aggregator\<close>

text \<open>
  The two functions read the cell \<^verbatim>\<open>legs\<close> of the render they close over; it is their
  argument \<open>parlay\<close> here.
\<close>

definition getCombinedProb :: "leg list \<Rightarrow> jsnum" where
  "getCombinedProb parlay =
     (if length parlay = 0 then Fin 0
      else
        let base = foldl (\<lambda>acc leg. js_mul acc (probability leg)) (Fin 1) parlay;
            avgCorrelationFactor = Fin 0.85;
            bonus = (if length parlay = 2 then Fin 1.3 else if length parlay = 3 then Fin 1.5 else Fin 1.0)
        in js_mul
             (js_mul (js_pow base (js_div (Fin 1) (Fin (real (length parlay))))) avgCorrelationFactor)
             bonus)"

definition getCombinedPayout :: "leg list \<Rightarrow> jsval" where
  "getCombinedPayout parlay =
     (let combinedProb = getCombinedProb parlay
      in if js_gt combinedProb (Fin 0)
         then toFixed2 (calculatePayoutOdds (js_min combinedProb (Fin 0.25)) default_houseEdge)
         else Num (Fin 0))"

section \<open>Risk manager\<close>

definition empty_error :: string where
  "empty_error = ''You must add at least one leg to your parlay.''"

definition probability_error :: string where
  "probability_error = ''Combined probability exceeds 25% maximum win cap.''"

definition exposure_error :: string where
  "exposure_error = ''Potential payout exceeds maximum treasury exposure.''"

text \<open>
  \<^verbatim>\<open>placeBet\<close>. \<open>now\<close> is what \<^verbatim>\<open>Date.now()\<close> returns and \<open>isoString\<close> what
  \<^verbatim>\<open>new Date().toISOString()\<close> returns.
\<close>

definition placeBet :: "nat \<Rightarrow> string \<Rightarrow> state \<Rightarrow> state" where
  "placeBet now isoString s =
     (if length (state.legs s) = 0 then s\<lparr>error := empty_error\<rparr>
      else
        let finalProb = getCombinedProb (state.legs s)
        in if js_gt finalProb (Fin 0.25) then s\<lparr>error := probability_error\<rparr>
           else
             let payoutOdds = calculatePayoutOdds finalProb default_houseEdge;
                 potentialPayout = js_mul (state.betAmount s) payoutOdds
             in if js_gt potentialPayout (js_mul TREASURY_SIZE MAX_PAYOUT_PERCENTAGE)
                then s\<lparr>error := exposure_error\<rparr>
                else
                  let newTicket =
                        \<lparr>id_ticket = now, ticket.legs = state.legs s,
                          ticket.betAmount = state.betAmount s, timestamp = isoString,
                          result = ''pending'',
                          combinedPayout = getCombinedPayout (state.legs s)\<rparr>
                  in s\<lparr>error := [], history := newTicket # history s, state.legs := []\<rparr>)"

section \<open>Reachable states\<close>

text \<open>
  The states the component can be in: the initial values of the nine cells, followed by
  any sequence of events. The inputs and the price feed may deliver any Number.
\<close>

inductive reachable :: "state \<Rightarrow> bool" where
  reachable_initial: "reachable initial"
| reachable_setSelectedAsset: "reachable s \<Longrightarrow> reachable (setSelectedAsset a s)"
| reachable_setTimeframe: "reachable s \<Longrightarrow> reachable (setTimeframe t s)"
| reachable_setLowerBound: "reachable s \<Longrightarrow> reachable (setLowerBound x s)"
| reachable_setUpperBound: "reachable s \<Longrightarrow> reachable (setUpperBound x s)"
| reachable_setBetAmount: "reachable s \<Longrightarrow> reachable (setBetAmount x s)"
| reachable_setLivePrice: "reachable s \<Longrightarrow> reachable (setLivePrice x s)"
| reachable_addLeg: "reachable s \<Longrightarrow> reachable (addLeg s)"
| reachable_removeLeg: "reachable s \<Longrightarrow> reachable (removeLeg index s)"
| reachable_placeBet: "reachable s \<Longrightarrow> reachable (placeBet now isoString s)"

text \<open>
  A leg was priced at \<open>price\<close>: its bounds passed the range validator at that price and
  its probability and odds are the ones the engines give there.
\<close>

definition priced_at :: "leg \<Rightarrow> jsnum \<Rightarrow> bool" where
  "priced_at l price =
     (isRangeValid (leg.lowerBound l) (leg.upperBound l) price \<and>
      probability l =
        calculateWinProbability (asset l) (leg.lowerBound l) (leg.upperBound l)
          (TIMEFRAMES (leg.timeframe l)) price \<and>
      payoutOdds l = calculatePayoutOdds (probability l) default_houseEdge)"

text \<open>
  The parlay formula in the words of the specification: the product of the
  probabilities, and the bonus for the number of legs.
\<close>

definition probability_product :: "leg list \<Rightarrow> jsnum" where
  "probability_product parlay = fold (\<lambda>l acc. js_mul acc (probability l)) parlay (Fin 1)"

definition leg_count_bonus :: "nat \<Rightarrow> real" where
  "leg_count_bonus n = (if n = 2 then 1.3 else if n = 3 then 1.5 else 1.0)"

section \<open>Sample sessions\<close>

text \<open>
  Bitcoin at 50000, the range 45000 to 55000 (width 20%), the 24-hour timeframe: one
  leg, then the same leg a second time.
\<close>

definition one_leg_state :: state where
  "one_leg_state =
     addLeg (setUpperBound (Fin 55000) (setLowerBound (Fin 45000) (setLivePrice (Fin 50000) initial)))"

definition two_leg_state :: state where
  "two_leg_state = addLeg one_leg_state"

definition sample_leg :: leg where
  "sample_leg =
     \<lparr>asset = BTC, leg.timeframe = H24, leg.lowerBound = Fin 45000, leg.upperBound = Fin 55000,
      probability = Fin 0.25, payoutOdds = Fin 3.72\<rparr>"

text \<open>
  A reading of the clock, in milliseconds and as an ISO string, and the ticket that
  \<^verbatim>\<open>placeBet\<close> makes of the first session at that reading.
\<close>

definition sample_now :: nat where
  "sample_now = 1700000000000"

definition sample_iso :: string where
  "sample_iso = ''2023-11-14T22:13:20.000Z''"

definition sample_ticket :: ticket where
  "sample_ticket =
     \<lparr>id_ticket = sample_now, ticket.legs = [sample_leg], ticket.betAmount = Fin 100, timestamp = sample_iso,
      result = ''pending'', combinedPayout = Str ''4.38''\<rparr>"

section \<open>Facts about the sample sessions and the gates\<close>

lemma tanh_gt_quarter:
  fixes x :: real
  assumes "1 / 2 \<le> x"
  shows "1 / 4 < tanh x"
proof -
  define E where "E = exp (- 2 * x)"
  have "1 + 2 * x \<le> exp (2 * x)" by (rule exp_ge_add_one_self)
  with assms have e2: "2 \<le> exp (2 * x)" by linarith
  have "E = inverse (exp (2 * x))" by (simp add: E_def exp_minus)
  also have "\<dots> \<le> inverse 2" using e2 by (intro le_imp_inverse_le) simp_all
  finally have E: "E \<le> 1 / 2" by simp
  have pos: "0 < E" by (simp add: E_def)
  have "1 / 4 < (1 - E) / (1 + E)"
    using E pos by (simp add: field_simps)
  then show ?thesis
    unfolding tanh_real_altdef E_def .
qed

lemma sqrt_pi8_ge_half: "1 / 2 \<le> sqrt (pi / 8)"
proof -
  have "(1 / 2)\<^sup>2 \<le> pi / 8" using pi_ge_two by (simp add: power2_eq_square)
  then show ?thesis by (rule real_le_rsqrt)
qed

lemma normalCDF_Fin:
  "normalCDF (Fin z) = Fin (0.5 * (1 + tanh (sqrt (pi / 8) * z)))"
  by (simp add: normalCDF_def)

lemma sample_probability:
  "calculateWinProbability BTC (Fin 45000) (Fin 55000) (Fin 24) (Fin 50000) = Fin (1 / 4)"
proof -
  define a where "a = sqrt (pi / 8) * (50 / 11)"
  have "1 / 2 \<le> a"
    unfolding a_def using sqrt_pi8_ge_half by linarith
  then have t: "1 / 4 < tanh a" by (rule tanh_gt_quarter)
  have vol: "calculateTimeScaledVolatility BTC (Fin 24) (Fin 50000) = Fin 0.022"
    by (simp add: calculateTimeScaledVolatility_def)
  have z2: "js_div (js_sub (Fin 55000) (Fin 50000)) (js_mul (Fin 50000) (Fin 0.022)) = Fin (50 / 11)"
    by (simp add: js_sub_def)
  have z1: "js_div (js_sub (Fin 45000) (Fin 50000)) (js_mul (Fin 50000) (Fin 0.022)) = Fin (- (50 / 11))"
    by (simp add: js_sub_def)
  have half: "(1 + t) / 2 - (1 - t) / 2 = t" for t :: real
    by (simp add: field_simps)
  have diff: "js_sub (normalCDF (Fin (50 / 11))) (normalCDF (Fin (- (50 / 11)))) = Fin (tanh a)"
    using half [of "tanh a"] by (simp add: normalCDF_Fin js_sub_def a_def)
  have "js_min (Fin (tanh a)) (Fin 0.25) = Fin (1 / 4)"
    using t by simp
  then show ?thesis
    unfolding calculateWinProbability_def Let_def vol z1 z2 diff .
qed

lemma sample_valid: "isRangeValid (Fin 45000) (Fin 55000) (Fin 50000)"
  by (simp add: isRangeValid_def js_sub_def js_ge_def RANGE_LIMITS_narrow_def RANGE_LIMITS_wide_def)

lemma sample_odds: "calculatePayoutOdds (Fin (1 / 4)) default_houseEdge = Fin (93 / 25)"
  by (simp add: calculatePayoutOdds_def default_houseEdge_def js_sub_def)

lemma one_leg_state_eq:
  "one_leg_state =
     \<lparr>state.legs = [sample_leg], selectedAsset = BTC, state.timeframe = H24,
      state.lowerBound = Fin 45000, state.upperBound = Fin 55000, state.betAmount = Fin 100,
      history = [], error = [], livePrice = Fin 50000\<rparr>"
  by (simp add: one_leg_state_def addLeg_def addLeg_traced_def setUpperBound_def setLowerBound_def
      setLivePrice_def initial_def sample_valid sample_probability sample_odds sample_leg_def Let_def)

lemma two_leg_state_eq:
  "two_leg_state =
     \<lparr>state.legs = [sample_leg, sample_leg], selectedAsset = BTC, state.timeframe = H24,
      state.lowerBound = Fin 45000, state.upperBound = Fin 55000, state.betAmount = Fin 100,
      history = [], error = [], livePrice = Fin 50000\<rparr>"
  by (simp add: two_leg_state_def one_leg_state_eq addLeg_def addLeg_traced_def
      sample_valid sample_probability sample_odds sample_leg_def Let_def)

lemma getCombinedProb_single:
  "0 < p \<Longrightarrow> probability l = Fin p \<Longrightarrow> getCombinedProb [l] = Fin (p * 0.85)"
  by (simp add: getCombinedProb_def)

lemma getCombinedProb_pair:
  assumes "0 < p" "probability l1 = Fin p" "probability l2 = Fin p"
  shows "getCombinedProb [l1, l2] = Fin (0.85 * 1.3 * p)"
proof -
  have "(p * p) powr (1 / 2) = p"
    using assms(1) by (simp add: powr_half_sqrt)
  then show ?thesis
    using assms by (simp add: getCombinedProb_def)
qed

lemma sample_combined: "getCombinedProb [sample_leg] = Fin 0.2125"
  using getCombinedProb_single [of "0.25" sample_leg] by (simp add: sample_leg_def)

lemma sample_pair_combined: "getCombinedProb [sample_leg, sample_leg] = Fin 0.27625"
  using getCombinedProb_pair [of "0.25" sample_leg sample_leg] by (simp add: sample_leg_def)

lemma gate_limit: "js_mul TREASURY_SIZE MAX_PAYOUT_PERCENTAGE = Fin 2000"
  by (simp add: TREASURY_SIZE_def MAX_PAYOUT_PERCENTAGE_def)

lemma addLeg_invalid:
  "\<not> isRangeValid (state.lowerBound s) (state.upperBound s) (livePrice s) \<Longrightarrow>
   addLeg_traced s = ([], s\<lparr>error := range_error\<rparr>)"
  by (simp add: addLeg_traced_def)

lemma range_error_nonempty: "range_error \<noteq> []"
  by (simp add: range_error_def)

lemma placeBet_errors_nonempty:
  "empty_error \<noteq> []" "probability_error \<noteq> []" "exposure_error \<noteq> []"
  by (simp_all add: empty_error_def probability_error_def exposure_error_def)

lemma toFixed2_digits_eval:
  assumes "nat \<lfloor>x * 100 + 1 / 2\<rfloor> = n" "decimal n = m"
  shows "toFixed2_digits x =
           take (length (replicate (3 - length m) (CHR ''0'') @ m) - 2)
             (replicate (3 - length m) (CHR ''0'') @ m) @ ''.'' @
           drop (length (replicate (3 - length m) (CHR ''0'') @ m) - 2)
             (replicate (3 - length m) (CHR ''0'') @ m)"
  using assms by (simp add: toFixed2_digits_def Let_def)

lemma decimal_438: "decimal 438 = ''438''"
  by (simp add: decimal.simps digit_def)

lemma sample_formatted: "toFixed2 (Fin (372 / 85)) = Str ''4.38''"
proof -
  have n: "nat \<lfloor>(372 / 85 :: real) * 100 + 1 / 2\<rfloor> = 438" by simp
  have "toFixed2_digits (372 / 85) = ''4.38''"
    using toFixed2_digits_eval [OF n decimal_438] by simp
  then show ?thesis by simp
qed

lemma sample_capped_odds:
  "calculatePayoutOdds (js_min (Fin 0.2125) (Fin 0.25)) default_houseEdge = Fin (372 / 85)"
  by (simp add: calculatePayoutOdds_def default_houseEdge_def js_sub_def)

lemma sample_payout: "getCombinedPayout [sample_leg] = Str ''4.38''"
  using sample_formatted sample_capped_odds
  by (simp add: getCombinedPayout_def sample_combined js_gt_def Let_def)

lemma placeBet_empty: "state.legs s = [] \<Longrightarrow> placeBet now isoString s = s\<lparr>error := empty_error\<rparr>"
  by (simp add: placeBet_def)

lemma placeBet_probability:
  "state.legs s \<noteq> [] \<Longrightarrow> js_gt (getCombinedProb (state.legs s)) (Fin 0.25) \<Longrightarrow>
   placeBet now isoString s = s\<lparr>error := probability_error\<rparr>"
  by (simp add: placeBet_def Let_def)

lemma placeBet_exposure:
  "state.legs s \<noteq> [] \<Longrightarrow> \<not> js_gt (getCombinedProb (state.legs s)) (Fin 0.25) \<Longrightarrow>
   js_gt (js_mul (state.betAmount s)
            (calculatePayoutOdds (getCombinedProb (state.legs s)) default_houseEdge)) (Fin 2000) \<Longrightarrow>
   placeBet now isoString s = s\<lparr>error := exposure_error\<rparr>"
  by (simp add: placeBet_def Let_def gate_limit)

lemma placeBet_accept:
  "state.legs s \<noteq> [] \<Longrightarrow> \<not> js_gt (getCombinedProb (state.legs s)) (Fin 0.25) \<Longrightarrow>
   \<not> js_gt (js_mul (state.betAmount s)
            (calculatePayoutOdds (getCombinedProb (state.legs s)) default_houseEdge)) (Fin 2000) \<Longrightarrow>
   placeBet now isoString s =
     s\<lparr>error := [],
       history :=
         \<lparr>id_ticket = now, ticket.legs = state.legs s, ticket.betAmount = state.betAmount s,
           timestamp = isoString, result = ''pending'',
           combinedPayout = getCombinedPayout (state.legs s)\<rparr> # history s,
       state.legs := []\<rparr>"
  by (simp add: placeBet_def Let_def gate_limit)

lemma sample_stake_payout:
  "js_mul (Fin b) (calculatePayoutOdds (Fin 0.2125) default_houseEdge) = Fin (b * (372 / 85))"
  by (simp add: calculatePayoutOdds_def default_houseEdge_def js_sub_def)

lemma addLeg_valid:
  "isRangeValid (state.lowerBound s) (state.upperBound s) (livePrice s) \<Longrightarrow>
   addLeg s =
     s\<lparr>error := [],
       state.legs := state.legs s @
         [\<lparr>asset = selectedAsset s, leg.timeframe = state.timeframe s,
           leg.lowerBound = state.lowerBound s, leg.upperBound = state.upperBound s,
           probability =
             calculateWinProbability (selectedAsset s) (state.lowerBound s) (state.upperBound s)
               (TIMEFRAMES (state.timeframe s)) (livePrice s),
           payoutOdds =
             calculatePayoutOdds
               (calculateWinProbability (selectedAsset s) (state.lowerBound s)
                  (state.upperBound s) (TIMEFRAMES (state.timeframe s)) (livePrice s))
               default_houseEdge\<rparr>]\<rparr>"
  by (simp add: addLeg_def addLeg_traced_def Let_def)

lemma placeBet_cases:
  "placeBet now isoString s = s\<lparr>error := empty_error\<rparr> \<or>
   placeBet now isoString s = s\<lparr>error := probability_error\<rparr> \<or>
   placeBet now isoString s = s\<lparr>error := exposure_error\<rparr> \<or>
   (state.legs s \<noteq> [] \<and> \<not> js_gt (getCombinedProb (state.legs s)) (Fin 0.25) \<and>
    \<not> js_gt (js_mul (state.betAmount s)
            (calculatePayoutOdds (getCombinedProb (state.legs s)) default_houseEdge)) (Fin 2000) \<and>
    placeBet now isoString s =
     s\<lparr>error := [],
       history :=
         \<lparr>id_ticket = now, ticket.legs = state.legs s, ticket.betAmount = state.betAmount s,
           timestamp = isoString, result = ''pending'',
           combinedPayout = getCombinedPayout (state.legs s)\<rparr> # history s,
       state.legs := []\<rparr>)"
  using placeBet_empty [of s now isoString] placeBet_probability [of s now isoString]
    placeBet_exposure [of s now isoString] placeBet_accept [of s now isoString]
  by blast

lemma placeBet_rejected:
  assumes "error (placeBet now isoString s) \<noteq> []"
  shows "placeBet now isoString s = s\<lparr>error := error (placeBet now isoString s)\<rparr>"
  using placeBet_cases [of now isoString s] assms
  by (elim disjE conjE) simp_all

lemma placeBet_rejected_iff:
  "(error (placeBet now isoString s) \<noteq> []) =
   (state.legs s = [] \<or> js_gt (getCombinedProb (state.legs s)) (Fin 0.25) \<or>
    js_gt (js_mul (state.betAmount s)
             (calculatePayoutOdds (getCombinedProb (state.legs s)) default_houseEdge)) (Fin 2000))"
proof (cases "state.legs s = []")
  case True
  then show ?thesis by (simp add: placeBet_empty placeBet_errors_nonempty)
next
  case ne: False
  show ?thesis
  proof (cases "js_gt (getCombinedProb (state.legs s)) (Fin 0.25)")
    case True
    then show ?thesis using ne by (simp add: placeBet_probability placeBet_errors_nonempty)
  next
    case np: False
    show ?thesis
    proof (cases "js_gt (js_mul (state.betAmount s)
             (calculatePayoutOdds (getCombinedProb (state.legs s)) default_houseEdge)) (Fin 2000)")
      case True
      then show ?thesis using ne np by (simp add: placeBet_exposure placeBet_errors_nonempty)
    next
      case False
      then show ?thesis using ne np by (simp add: placeBet_accept)
    qed
  qed
qed

lemma getCombinedProb_Nil: "getCombinedProb [] = Fin 0"
  by (simp add: getCombinedProb_def)


lemma fold_probability_pos:
  assumes "map probability parlay = map Fin ps" "\<forall>p \<in> set ps. 0 < p" "0 < a"
  shows "fold (\<lambda>l acc. js_mul acc (probability l)) parlay (Fin a) = Fin (a * prod_list ps) \<and>
         0 < a * prod_list ps"
  using assms
proof (induction parlay arbitrary: ps a)
  case Nil
  then show ?case by simp
next
  case (Cons l parlay)
  then obtain p qs where ps: "ps = p # qs" "probability l = Fin p"
      "map probability parlay = map Fin qs"
    by (cases ps) auto
  with Cons.prems have pos: "0 < a * p" "\<forall>p \<in> set qs. 0 < p" by simp_all
  from Cons.IH [OF ps(3) pos(2) pos(1)] show ?case
    by (simp add: ps mult.assoc)
qed

lemma getCombinedProb_formula:
  "parlay \<noteq> [] \<Longrightarrow>
   getCombinedProb parlay =
     js_mul (js_mul (js_pow (probability_product parlay)
                       (js_div (Fin 1) (Fin (real (length parlay))))) (Fin 0.85))
       (Fin (leg_count_bonus (length parlay)))"
  by (simp add: getCombinedProb_def probability_product_def leg_count_bonus_def Let_def
      foldl_conv_fold)

lemma getCombinedProb_real:
  assumes "parlay \<noteq> []" "map probability parlay = map Fin ps" "\<forall>p \<in> set ps. 0 < p"
  shows "getCombinedProb parlay =
     Fin (prod_list ps powr (1 / real (length parlay)) * 0.85 * leg_count_bonus (length parlay))"
proof -
  have "probability_product parlay = Fin (1 * prod_list ps) \<and> 0 < 1 * prod_list ps"
    unfolding probability_product_def
    by (rule fold_probability_pos [OF assms(2) assms(3)]) simp
  then have pp: "probability_product parlay = Fin (prod_list ps)" "0 < prod_list ps"
    by simp_all
  have n: "real (length parlay) \<noteq> 0" using assms(1) by simp
  show ?thesis
    unfolding getCombinedProb_formula [OF assms(1)] pp(1)
    using pp(2) n by simp
qed

lemma getCombinedPayout_eq:
  "getCombinedPayout parlay =
     (if js_gt (getCombinedProb parlay) (Fin 0)
      then toFixed2 (calculatePayoutOdds (js_min (getCombinedProb parlay) (Fin 0.25))
                       default_houseEdge)
      else Num (Fin 0))"
  by (simp add: getCombinedPayout_def Let_def)

lemma placeBet_accepted:
  assumes "error (placeBet now isoString s) = []"
  shows "state.legs s \<noteq> [] \<and> \<not> js_gt (getCombinedProb (state.legs s)) (Fin 0.25) \<and>
    \<not> js_gt (js_mul (state.betAmount s)
            (calculatePayoutOdds (getCombinedProb (state.legs s)) default_houseEdge)) (Fin 2000) \<and>
    placeBet now isoString s =
     s\<lparr>error := [],
       history :=
         \<lparr>id_ticket = now, ticket.legs = state.legs s, ticket.betAmount = state.betAmount s,
           timestamp = isoString, result = ''pending'',
           combinedPayout = getCombinedPayout (state.legs s)\<rparr> # history s,
       state.legs := []\<rparr>"
  using placeBet_cases [of now isoString s] assms placeBet_errors_nonempty
  by (elim disjE) auto

lemma sample_ticket_placed:
  "placeBet sample_now sample_iso one_leg_state =
     one_leg_state
       \<lparr>error := [],
        history :=
          [\<lparr>id_ticket = sample_now, ticket.legs = [sample_leg], ticket.betAmount = Fin 100,
             timestamp = sample_iso, result = ''pending'', combinedPayout = Str ''4.38''\<rparr>],
        state.legs := []\<rparr>"
  using placeBet_accept [of one_leg_state sample_now sample_iso] sample_stake_payout [of 100]
  by (simp add: one_leg_state_eq sample_combined js_gt_def sample_payout)

lemma isRangeValid_width:
  "isRangeValid l u price =
     (js_ge (js_div (js_sub u l) price) (Fin 0.01) \<and> js_le (js_div (js_sub u l) price) (Fin 0.30))"
  by (simp add: isRangeValid_def Let_def RANGE_LIMITS_narrow_def RANGE_LIMITS_wide_def)

lemma isRangeValid_finite:
  assumes "isRangeValid l u price"
  shows "\<exists>w. js_div (js_sub u l) price = Fin w \<and> 0.01 \<le> w \<and> w \<le> 0.30"
proof (cases "js_div (js_sub u l) price")
  case (Fin w)
  then show ?thesis using assms by (simp add: isRangeValid_width js_ge_def)
next
  case PInf
  then show ?thesis using assms by (simp add: isRangeValid_width js_ge_def)
next
  case NInf
  then show ?thesis using assms by (simp add: isRangeValid_width js_ge_def)
next
  case NaN
  then show ?thesis using assms by (simp add: isRangeValid_width js_ge_def)
qed

lemma addLeg_appends:
  assumes "state.legs (addLeg s) \<noteq> state.legs s"
  shows "isRangeValid (state.lowerBound s) (state.upperBound s) (livePrice s) \<and>
         (\<exists>l. state.legs (addLeg s) = state.legs s @ [l] \<and>
              leg.lowerBound l = state.lowerBound s \<and> leg.upperBound l = state.upperBound s \<and>
              priced_at l (livePrice s))"
proof (cases "isRangeValid (state.lowerBound s) (state.upperBound s) (livePrice s)")
  case True
  then show ?thesis
    by (simp add: addLeg_valid priced_at_def)
next
  case False
  then have "addLeg s = s\<lparr>error := range_error\<rparr>"
    by (simp add: addLeg_def addLeg_invalid)
  then have "state.legs (addLeg s) = state.legs s" by simp
  with assms show ?thesis by simp
qed

lemma removeLeg_subset: "set (state.legs (removeLeg index s)) \<subseteq> set (state.legs s)"
proof -
  have "set (map snd (filter P (enumerate n xs))) \<subseteq> set xs" for P n and xs :: "leg list"
    by (auto simp: in_set_enumerate_eq)
  then show ?thesis by (simp add: removeLeg_def)
qed

lemma reachable_priced:
  assumes "reachable s"
  shows "(\<forall>l \<in> set (state.legs s). \<exists>price. priced_at l price) \<and>
         (\<forall>t \<in> set (history s). \<forall>l \<in> set (ticket.legs t). \<exists>price. priced_at l price)"
  using assms
proof (induction rule: reachable.induct)
  case reachable_initial
  then show ?case by (simp add: initial_def)
next
  case (reachable_setSelectedAsset s a)
  then show ?case by (simp add: setSelectedAsset_def)
next
  case (reachable_setTimeframe s t)
  then show ?case by (simp add: setTimeframe_def)
next
  case (reachable_setLowerBound s x)
  then show ?case by (simp add: setLowerBound_def)
next
  case (reachable_setUpperBound s x)
  then show ?case by (simp add: setUpperBound_def)
next
  case (reachable_setBetAmount s x)
  then show ?case by (simp add: setBetAmount_def)
next
  case (reachable_setLivePrice s x)
  then show ?case by (simp add: setLivePrice_def)
next
  case (reachable_addLeg s)
  show ?case
  proof (cases "isRangeValid (state.lowerBound s) (state.upperBound s) (livePrice s)")
    case True
    have "priced_at
       \<lparr>asset = selectedAsset s, leg.timeframe = state.timeframe s,
           leg.lowerBound = state.lowerBound s, leg.upperBound = state.upperBound s,
           probability =
             calculateWinProbability (selectedAsset s) (state.lowerBound s) (state.upperBound s)
               (TIMEFRAMES (state.timeframe s)) (livePrice s),
           payoutOdds =
             calculatePayoutOdds
               (calculateWinProbability (selectedAsset s) (state.lowerBound s)
                  (state.upperBound s) (TIMEFRAMES (state.timeframe s)) (livePrice s))
               default_houseEdge\<rparr> (livePrice s)"
      using True by (simp add: priced_at_def)
    then show ?thesis
      using reachable_addLeg.IH True by (auto simp: addLeg_valid)
  next
    case False
    then have "addLeg s = s\<lparr>error := range_error\<rparr>"
      by (simp add: addLeg_def addLeg_invalid)
    then show ?thesis using reachable_addLeg.IH by simp
  qed
next
  case (reachable_removeLeg s index)
  have h: "history (removeLeg index s) = history s" by (simp add: removeLeg_def)
  show ?case
    using reachable_removeLeg.IH removeLeg_subset [of index s] unfolding h by blast
next
  case (reachable_placeBet s now isoString)
  show ?case
  proof (cases "error (placeBet now isoString s) = []")
    case True
    note acc = placeBet_accepted [OF True]
    then have e: "placeBet now isoString s =
     s\<lparr>error := [],
       history :=
         \<lparr>id_ticket = now, ticket.legs = state.legs s, ticket.betAmount = state.betAmount s,
           timestamp = isoString, result = ''pending'',
           combinedPayout = getCombinedPayout (state.legs s)\<rparr> # history s,
       state.legs := []\<rparr>" by blast
    show ?thesis
      using reachable_placeBet.IH by (subst e, subst e) simp
  next
    case False
    then have e: "placeBet now isoString s = s\<lparr>error := error (placeBet now isoString s)\<rparr>"
      by (rule placeBet_rejected)
    show ?thesis
      using reachable_placeBet.IH by (subst e, subst e) simp
  qed
qed

lemma one_leg_reachable: "reachable one_leg_state"
  unfolding one_leg_state_def
  by (intro reachable.intros)

section \<open>Probability engine in exact arithmetic\<close>

text \<open>
  Whatever its arguments are, \<^verbatim>\<open>calculateWinProbability\<close> returns nothing greater than
  \<open>0.25\<close>: the last operation is \<^verbatim>\<open>Math.min\<close>. With finite arithmetic exact, the
  probability of a range \<open>lower < upper\<close> at a positive price is moreover a finite number
  greater than \<open>0\<close>, because \<open>tanh\<close> is strictly increasing on the reals. That second
  bound is a fact of the reals only. A double has 53 bits: \<^verbatim>\<open>Math.tanh\<close> of an argument
  beyond about 19 is the double \<open>1\<close>, so for two bounds far enough from the price both
  values of the CDF are equal and their difference is \<open>0\<close>. How near \<^verbatim>\<open>Math.tanh\<close>
  comes to \<open>tanh\<close> is left to the engine by the language.
\<close>

lemma volatility_pos: "\<exists>v. volatility a = Fin v \<and> 0 < v"
proof -
  define v :: real where
    "v = (case a of BTC \<Rightarrow> 0.02 | ETH \<Rightarrow> 0.025 | SOL \<Rightarrow> 0.035 | LINK \<Rightarrow> 0.04 | DOGE \<Rightarrow> 0.06)"
  have "volatility a = Fin v" unfolding v_def by (cases a) simp_all
  moreover have "0 < v" unfolding v_def by (cases a) simp_all
  ultimately show ?thesis by blast
qed

lemma TIMEFRAMES_pos: "\<exists>h. TIMEFRAMES t = Fin h \<and> 0 < h"
proof -
  define h :: real where
    "h = (case t of H1 \<Rightarrow> 1 | H4 \<Rightarrow> 4 | H24 \<Rightarrow> 24 | H48 \<Rightarrow> 48 | D3 \<Rightarrow> 72 | D7 \<Rightarrow> 168
          | D14 \<Rightarrow> 336 | D30 \<Rightarrow> 720)"
  have "TIMEFRAMES t = Fin h" unfolding h_def by (cases t) simp_all
  moreover have "0 < h" unfolding h_def by (cases t) simp_all
  ultimately show ?thesis by blast
qed

lemma calculateTimeScaledVolatility_pos:
  assumes "0 < h"
  shows "\<exists>v. calculateTimeScaledVolatility a (Fin h) price = Fin v \<and> 0 < v"
proof -
  obtain v0 where v0: "volatility a = Fin v0" "0 < v0"
    using volatility_pos by blast
  define m :: real where
    "m = (if h \<le> 1 then 1.3 else if h \<le> 4 then 1.2 else if h \<le> 24 then 1.1 else 1.0)"
  have m: "0 < m" by (simp add: m_def)
  have s: "0 < sqrt (h / 24)" using assms by simp
  have "0 < v0 * sqrt (h / 24)" using v0(2) s by (rule mult_pos_pos)
  then have pos: "0 < v0 * sqrt (h / 24) * m"
    using m by (rule mult_pos_pos)
  have "calculateTimeScaledVolatility a (Fin h) price = Fin (v0 * sqrt (h / 24) * m)"
    using assms by (simp add: calculateTimeScaledVolatility_def Let_def v0(1) m_def)
  then show ?thesis using pos by blast
qed

lemma calculateWinProbability_exact:
  assumes "0 < price" "lower < upper"
  shows "\<exists>q. calculateWinProbability a (Fin lower) (Fin upper) (TIMEFRAMES t) (Fin price) = Fin q \<and>
             0 < q \<and> q \<le> 0.25"
proof -
  obtain h where h: "TIMEFRAMES t = Fin h" "0 < h"
    using TIMEFRAMES_pos by blast
  obtain v where v: "calculateTimeScaledVolatility a (Fin h) (Fin price) = Fin v" "0 < v"
    using calculateTimeScaledVolatility_pos [OF h(2)] by blast
  define sd where "sd = price * v"
  have sd: "0 < sd" unfolding sd_def using assms(1) v(2) by (rule mult_pos_pos)
  define z1 where "z1 = (lower - price) / sd"
  define z2 where "z2 = (upper - price) / sd"
  have z: "z1 < z2"
    unfolding z1_def z2_def using assms(2) sd by (simp add: divide_strict_right_mono)
  have k: "0 < sqrt (pi / 8)" by simp
  have "sqrt (pi / 8) * z1 < sqrt (pi / 8) * z2"
    using z k by (rule mult_strict_left_mono)
  then have t: "tanh (sqrt (pi / 8) * z1) < tanh (sqrt (pi / 8) * z2)"
    by (simp only: tanh_real_less_iff)
  define d where "d = 0.5 * (1 + tanh (sqrt (pi / 8) * z2)) - 0.5 * (1 + tanh (sqrt (pi / 8) * z1))"
  have d: "0 < d" unfolding d_def using t by simp
  have std: "js_mul (Fin price) (Fin v) = Fin sd" by (simp add: sd_def)
  have q1: "js_div (js_sub (Fin lower) (Fin price)) (Fin sd) = Fin z1"
    using sd by (simp add: js_sub_def z1_def)
  have q2: "js_div (js_sub (Fin upper) (Fin price)) (Fin sd) = Fin z2"
    using sd by (simp add: js_sub_def z2_def)
  have diff: "js_sub (normalCDF (Fin z2)) (normalCDF (Fin z1)) = Fin d"
    by (simp add: normalCDF_Fin js_sub_def d_def)
  have m: "js_min (Fin d) (Fin 0.25) = Fin (min d 0.25)"
    by (simp add: min_def)
  have "calculateWinProbability a (Fin lower) (Fin upper) (TIMEFRAMES t) (Fin price) = Fin (min d 0.25)"
    unfolding calculateWinProbability_def Let_def h(1) v(1) std q1 q2 diff m ..
  moreover have "0 < min d 0.25" "min d 0.25 \<le> 0.25" using d by simp_all
  ultimately show ?thesis by blast
qed

lemma calculateWinProbability_capped:
  "\<not> js_gt (calculateWinProbability a lower upper hours price) (Fin 0.25)"
proof -
  have "\<not> js_lt (Fin 0.25) (js_min x (Fin 0.25))" for x
    by (cases x) simp_all
  then show ?thesis
    by (simp add: calculateWinProbability_def Let_def js_gt_def)
qed

section \<open>Odds engine\<close>



section \<open>Leg builder at a zero price\<close>

text \<open>
  Claim C7. When the live price is \<^verbatim>\<open>0\<close> (what \<^verbatim>\<open>fetchPrice\<close> stores when the feed
  failed, and the initial value), \<^verbatim>\<open>addLeg\<close> rejects whatever the two bounds are: the
  width is \<^verbatim>\<open>Infinity\<close>, \<^verbatim>\<open>-Infinity\<close> or \<^verbatim>\<open>NaN\<close>, the range validator says no, the
  handler returns with the range error before any call of the probability engine, and
  the parlay keeps its legs. So no standard deviation of zero is divided by on this path.
\<close>

theorem addLeg_refuses_zero_price:
  assumes "livePrice s = Fin 0"
  shows "\<not> isRangeValid (state.lowerBound s) (state.upperBound s) (livePrice s) \<and>
         addLeg_traced s = ([], s\<lparr>error := range_error\<rparr>) \<and>
         addLeg s = s\<lparr>error := range_error\<rparr> \<and>
         state.legs (addLeg s) = state.legs s"
proof -
  have inv: "\<not> isRangeValid l u (Fin 0)" for l u
  proof (cases "js_sub u l")
    case (Fin d)
    then show ?thesis
      by (simp add: isRangeValid_def js_ge_def inf_of_def RANGE_LIMITS_narrow_def
          RANGE_LIMITS_wide_def)
  next
    case PInf
    then show ?thesis
      by (simp add: isRangeValid_def js_ge_def inf_of_def RANGE_LIMITS_narrow_def
          RANGE_LIMITS_wide_def)
  next
    case NInf
    then show ?thesis
      by (simp add: isRangeValid_def js_ge_def inf_of_def RANGE_LIMITS_narrow_def
          RANGE_LIMITS_wide_def)
  next
    case NaN
    then show ?thesis
      by (simp add: isRangeValid_def js_ge_def inf_of_def RANGE_LIMITS_narrow_def
          RANGE_LIMITS_wide_def)
  qed
  then have n: "\<not> isRangeValid (state.lowerBound s) (state.upperBound s) (livePrice s)"
    using assms by simp
  then show ?thesis
    by (simp add: addLeg_def addLeg_invalid)
qed

theorem addLeg_refuses_zero_price_witness:
  "livePrice initial = Fin 0 \<and>
   addLeg_traced initial = ([], initial\<lparr>error := range_error\<rparr>) \<and>
   state.legs (addLeg initial) = [] \<and>
   livePrice (setLivePrice (Fin 0) one_leg_state) = Fin 0 \<and>
   js_div (js_sub (Fin 55000) (Fin 45000)) (Fin 0) = PInf \<and>
   addLeg_traced (setLivePrice (Fin 0) one_leg_state) =
     ([], (setLivePrice (Fin 0) one_leg_state)\<lparr>error := range_error\<rparr>) \<and>
   state.legs (addLeg (setLivePrice (Fin 0) one_leg_state)) = [sample_leg]"
proof -
  have h: "livePrice initial = Fin 0" by (simp add: initial_def)
  have a: "addLeg_traced initial = ([], initial\<lparr>error := range_error\<rparr>) \<and>
      state.legs (addLeg initial) = []"
    using addLeg_refuses_zero_price [OF h] h by (simp add: initial_def)
  let ?z = "setLivePrice (Fin 0) one_leg_state"
  have z: "livePrice ?z = Fin 0" by (simp add: setLivePrice_def)
  have w: "js_div (js_sub (Fin 55000) (Fin 45000)) (Fin 0) = PInf"
    by (simp add: js_sub_def inf_of_def)
  have b: "addLeg_traced ?z = ([], ?z\<lparr>error := range_error\<rparr>) \<and>
      state.legs (addLeg ?z) = [sample_leg]"
    using addLeg_refuses_zero_price [OF z] by (simp add: setLivePrice_def one_leg_state_eq)
  show ?thesis using h a z w b by blast
qed

section \<open>Risk manager: the order of the gates\<close>

text \<open>
  Claim C1. \<^verbatim>\<open>placeBet\<close> applies its gates in order. With no leg it sets the
  empty-parlay message and changes nothing else. Otherwise, when the combined
  probability is greater than \<open>0.25\<close>, it sets the probability-cap message, whatever
  the stake. Otherwise, when the stake times \<^verbatim>\<open>calculatePayoutOdds\<close> of the combined
  probability is greater than \<open>20000 * 0.10\<close>, it sets the exposure message. Otherwise
  it clears the message, empties the parlay and puts in front of the history a ticket
  holding the legs, the stake, the time stamp, the combined odds of
  \<^verbatim>\<open>getCombinedPayout\<close> and the result \<^verbatim>\<open>pending\<close>.
\<close>

theorem placeBet_gates:
  "(state.legs s = [] \<longrightarrow> placeBet now isoString s = s\<lparr>error := empty_error\<rparr>) \<and>
   (state.legs s \<noteq> [] \<and> js_gt (getCombinedProb (state.legs s)) (Fin 0.25) \<longrightarrow>
      placeBet now isoString s = s\<lparr>error := probability_error\<rparr>) \<and>
   (state.legs s \<noteq> [] \<and> \<not> js_gt (getCombinedProb (state.legs s)) (Fin 0.25) \<and>
    js_gt (js_mul (state.betAmount s)
             (calculatePayoutOdds (getCombinedProb (state.legs s)) default_houseEdge))
          (Fin (20000 * 0.10)) \<longrightarrow>
      placeBet now isoString s = s\<lparr>error := exposure_error\<rparr>) \<and>
   (state.legs s \<noteq> [] \<and> \<not> js_gt (getCombinedProb (state.legs s)) (Fin 0.25) \<and>
    \<not> js_gt (js_mul (state.betAmount s)
               (calculatePayoutOdds (getCombinedProb (state.legs s)) default_houseEdge))
            (Fin (20000 * 0.10)) \<longrightarrow>
      placeBet now isoString s =
        s\<lparr>error := [],
          history :=
            \<lparr>id_ticket = now, ticket.legs = state.legs s, ticket.betAmount = state.betAmount s,
              timestamp = isoString, result = ''pending'',
              combinedPayout = getCombinedPayout (state.legs s)\<rparr> # history s,
          state.legs := []\<rparr>)"
proof -
  have lim: "Fin (20000 * 0.10) = Fin 2000" by simp
  show ?thesis
    unfolding lim
    using placeBet_empty [of s now isoString] placeBet_probability [of s now isoString]
      placeBet_exposure [of s now isoString] placeBet_accept [of s now isoString]
    by blast
qed

theorem placeBet_gates_witness:
  "placeBet sample_now sample_iso initial = initial\<lparr>error := empty_error\<rparr> \<and>
   placeBet sample_now sample_iso two_leg_state = two_leg_state\<lparr>error := probability_error\<rparr> \<and>
   placeBet sample_now sample_iso (setBetAmount (Fin 1000) one_leg_state) =
     (setBetAmount (Fin 1000) one_leg_state)\<lparr>error := exposure_error\<rparr> \<and>
   placeBet sample_now sample_iso one_leg_state =
     one_leg_state
       \<lparr>error := [],
        history :=
          [\<lparr>id_ticket = sample_now, ticket.legs = [sample_leg], ticket.betAmount = Fin 100,
             timestamp = sample_iso, result = ''pending'', combinedPayout = Str ''4.38''\<rparr>],
        state.legs := []\<rparr>"
proof -
  have a: "placeBet sample_now sample_iso initial = initial\<lparr>error := empty_error\<rparr>"
    using placeBet_gates [of initial sample_now sample_iso] by (simp add: initial_def)
  have b: "placeBet sample_now sample_iso two_leg_state = two_leg_state\<lparr>error := probability_error\<rparr>"
    using placeBet_gates [of two_leg_state sample_now sample_iso]
    by (simp add: two_leg_state_eq sample_pair_combined js_gt_def)
  have c: "placeBet sample_now sample_iso (setBetAmount (Fin 1000) one_leg_state) =
     (setBetAmount (Fin 1000) one_leg_state)\<lparr>error := exposure_error\<rparr>"
    using placeBet_gates [of "setBetAmount (Fin 1000) one_leg_state" sample_now sample_iso]
      sample_stake_payout [of 1000]
    by (simp add: one_leg_state_eq setBetAmount_def sample_combined js_gt_def)
  have d: "placeBet sample_now sample_iso one_leg_state =
     one_leg_state
       \<lparr>error := [],
        history :=
          [\<lparr>id_ticket = sample_now, ticket.legs = [sample_leg], ticket.betAmount = Fin 100,
             timestamp = sample_iso, result = ''pending'', combinedPayout = Str ''4.38''\<rparr>],
        state.legs := []\<rparr>"
    using placeBet_gates [of one_leg_state sample_now sample_iso] sample_stake_payout [of 100]
    by (simp add: one_leg_state_eq sample_combined js_gt_def sample_payout)
  show ?thesis using a b c d by blast
qed

section \<open>Rejections change the message only\<close>

text \<open>
  Claim C5. When \<^verbatim>\<open>addLeg\<close> rejects (the range is not valid) and when \<^verbatim>\<open>placeBet\<close>
  rejects (no leg, probability cap or exposure cap), the state after the handler is the
  state before it with another error message: the legs of the parlay and the history
  are the same. A handler rejects exactly when it leaves a non-empty message.
\<close>

theorem rejection_leaves_state:
  "(\<not> isRangeValid (state.lowerBound s) (state.upperBound s) (livePrice s) \<longrightarrow>
      addLeg s = s\<lparr>error := range_error\<rparr> \<and>
      state.legs (addLeg s) = state.legs s \<and> history (addLeg s) = history s) \<and>
   ((error (addLeg s) \<noteq> []) =
      (\<not> isRangeValid (state.lowerBound s) (state.upperBound s) (livePrice s))) \<and>
   (error (placeBet now isoString s) \<noteq> [] \<longrightarrow>
      placeBet now isoString s = s\<lparr>error := error (placeBet now isoString s)\<rparr> \<and>
      state.legs (placeBet now isoString s) = state.legs s \<and>
      history (placeBet now isoString s) = history s) \<and>
   ((error (placeBet now isoString s) \<noteq> []) =
      (state.legs s = [] \<or> js_gt (getCombinedProb (state.legs s)) (Fin 0.25) \<or>
       js_gt (js_mul (state.betAmount s)
                (calculatePayoutOdds (getCombinedProb (state.legs s)) default_houseEdge))
             (js_mul TREASURY_SIZE MAX_PAYOUT_PERCENTAGE)))"
proof (intro conjI impI)
  assume n: "\<not> isRangeValid (state.lowerBound s) (state.upperBound s) (livePrice s)"
  then show "addLeg s = s\<lparr>error := range_error\<rparr>"
    by (simp add: addLeg_def addLeg_invalid)
  then show "state.legs (addLeg s) = state.legs s" "history (addLeg s) = history s"
    by simp_all
next
  show "(error (addLeg s) \<noteq> []) =
      (\<not> isRangeValid (state.lowerBound s) (state.upperBound s) (livePrice s))"
  proof (cases "isRangeValid (state.lowerBound s) (state.upperBound s) (livePrice s)")
    case True
    then show ?thesis by (simp add: addLeg_valid)
  next
    case False
    then show ?thesis by (simp add: addLeg_def addLeg_invalid range_error_nonempty)
  qed
next
  assume r: "error (placeBet now isoString s) \<noteq> []"
  then show e: "placeBet now isoString s = s\<lparr>error := error (placeBet now isoString s)\<rparr>"
    by (rule placeBet_rejected)
  show "state.legs (placeBet now isoString s) = state.legs s"
    by (subst e) simp
  show "history (placeBet now isoString s) = history s"
    by (subst e) simp
next
  show "(error (placeBet now isoString s) \<noteq> []) =
      (state.legs s = [] \<or> js_gt (getCombinedProb (state.legs s)) (Fin 0.25) \<or>
       js_gt (js_mul (state.betAmount s)
                (calculatePayoutOdds (getCombinedProb (state.legs s)) default_houseEdge))
             (js_mul TREASURY_SIZE MAX_PAYOUT_PERCENTAGE))"
    unfolding gate_limit by (rule placeBet_rejected_iff)
qed

theorem rejection_leaves_state_witness:
  "\<not> isRangeValid (state.lowerBound one_leg_state) (state.upperBound one_leg_state)
       (livePrice (setLivePrice (Fin 0) one_leg_state)) \<and>
   addLeg (setLivePrice (Fin 0) one_leg_state) =
     (setLivePrice (Fin 0) one_leg_state)\<lparr>error := range_error\<rparr> \<and>
   state.legs (addLeg (setLivePrice (Fin 0) one_leg_state)) = [sample_leg] \<and>
   error (placeBet sample_now sample_iso two_leg_state) \<noteq> [] \<and>
   placeBet sample_now sample_iso two_leg_state = two_leg_state\<lparr>error := probability_error\<rparr> \<and>
   state.legs (placeBet sample_now sample_iso two_leg_state) = [sample_leg, sample_leg] \<and>
   history (placeBet sample_now sample_iso two_leg_state) = []"
proof -
  let ?z = "setLivePrice (Fin 0) one_leg_state"
  have inv: "\<not> isRangeValid (state.lowerBound ?z) (state.upperBound ?z) (livePrice ?z)"
    by (simp add: one_leg_state_eq setLivePrice_def isRangeValid_def js_sub_def js_ge_def
        inf_of_def RANGE_LIMITS_wide_def)
  have a: "addLeg ?z = ?z\<lparr>error := range_error\<rparr> \<and> state.legs (addLeg ?z) = state.legs ?z"
    using rejection_leaves_state [of ?z sample_now sample_iso] inv by blast
  have rej: "error (placeBet sample_now sample_iso two_leg_state) \<noteq> []"
    using rejection_leaves_state [of two_leg_state sample_now sample_iso]
    by (simp add: two_leg_state_eq sample_pair_combined js_gt_def)
  have b: "placeBet sample_now sample_iso two_leg_state = two_leg_state\<lparr>error := error (placeBet sample_now sample_iso two_leg_state)\<rparr> \<and>
      state.legs (placeBet sample_now sample_iso two_leg_state) = state.legs two_leg_state \<and>
      history (placeBet sample_now sample_iso two_leg_state) = history two_leg_state"
    using rejection_leaves_state [of two_leg_state sample_now sample_iso] rej by blast
  have c: "error (placeBet sample_now sample_iso two_leg_state) = probability_error"
    by (simp add: placeBet_probability two_leg_state_eq sample_pair_combined js_gt_def)
  show ?thesis
    using inv a rej b c by (simp add: one_leg_state_eq two_leg_state_eq setLivePrice_def)
qed

section \<open>Two capped legs against the parlay cap\<close>



section \<open>Parlay aggregator\<close>

text \<open>
  Claim C3, as amended. \<^verbatim>\<open>getCombinedProb\<close> of no leg is \<open>0\<close>. For \<open>n > 0\<close> legs it is
  the product of the probabilities to the power \<open>1 / n\<close>, times \<open>0.85\<close>, times the bonus:
  \<open>1.3\<close> for two legs, \<open>1.5\<close> for three, \<open>1.0\<close> otherwise; for finite positive
  probabilities this is the real number \<open>(\<Prod> p\<^sub>i) powr (1 / n) * 0.85 * bonus\<close>. The value
  is not capped: two legs at \<open>0.25\<close> give more than \<open>0.25\<close>. The combined odds of
  \<^verbatim>\<open>getCombinedPayout\<close> are, when the combined probability is greater than \<open>0\<close>, the
  String that \<^verbatim>\<open>toFixed(2)\<close> makes of \<^verbatim>\<open>calculatePayoutOdds\<close> at the smaller of the
  combined probability and \<open>0.25\<close>, and the Number \<open>0\<close> otherwise.
\<close>

theorem combined_probability_formula:
  "getCombinedProb [] = Fin 0 \<and>
   (parlay \<noteq> [] \<longrightarrow>
      getCombinedProb parlay =
        js_mul (js_mul (js_pow (probability_product parlay)
                          (js_div (Fin 1) (Fin (real (length parlay))))) (Fin 0.85))
          (Fin (leg_count_bonus (length parlay)))) \<and>
   (parlay \<noteq> [] \<and> map probability parlay = map Fin ps \<and> (\<forall>p \<in> set ps. 0 < p) \<longrightarrow>
      getCombinedProb parlay =
        Fin (prod_list ps powr (1 / real (length parlay)) * 0.85 *
             leg_count_bonus (length parlay))) \<and>
   leg_count_bonus 2 = 1.3 \<and> leg_count_bonus 3 = 1.5 \<and>
   (n \<noteq> 2 \<and> n \<noteq> 3 \<longrightarrow> leg_count_bonus n = 1.0) \<and>
   js_gt (getCombinedProb [sample_leg, sample_leg]) (Fin 0.25) \<and>
   getCombinedPayout parlay =
     (if js_gt (getCombinedProb parlay) (Fin 0)
      then toFixed2 (calculatePayoutOdds (js_min (getCombinedProb parlay) (Fin 0.25))
                       default_houseEdge)
      else Num (Fin 0))"
proof (intro conjI impI)
  show "getCombinedProb [] = Fin 0" by (rule getCombinedProb_Nil)
  show "js_gt (getCombinedProb [sample_leg, sample_leg]) (Fin 0.25)"
    by (simp add: sample_pair_combined js_gt_def)
  show "leg_count_bonus 2 = 1.3" "leg_count_bonus 3 = 1.5"
    by (simp_all add: leg_count_bonus_def)
  show "getCombinedPayout parlay =
     (if js_gt (getCombinedProb parlay) (Fin 0)
      then toFixed2 (calculatePayoutOdds (js_min (getCombinedProb parlay) (Fin 0.25))
                       default_houseEdge)
      else Num (Fin 0))"
    by (rule getCombinedPayout_eq)
next
  assume "parlay \<noteq> []"
  then show "getCombinedProb parlay =
        js_mul (js_mul (js_pow (probability_product parlay)
                          (js_div (Fin 1) (Fin (real (length parlay))))) (Fin 0.85))
          (Fin (leg_count_bonus (length parlay)))"
    by (rule getCombinedProb_formula)
next
  assume "parlay \<noteq> [] \<and> map probability parlay = map Fin ps \<and> (\<forall>p \<in> set ps. 0 < p)"
  then show "getCombinedProb parlay =
        Fin (prod_list ps powr (1 / real (length parlay)) * 0.85 *
             leg_count_bonus (length parlay))"
    by (simp add: getCombinedProb_real)
next
  assume "n \<noteq> 2 \<and> n \<noteq> 3"
  then show "leg_count_bonus n = 1.0" by (simp add: leg_count_bonus_def)
qed

theorem combined_probability_formula_witness:
  "getCombinedProb [sample_leg] = Fin (0.25 powr 1 * 0.85 * 1.0) \<and>
   getCombinedProb [sample_leg] = Fin 0.2125 \<and>
   leg_count_bonus 1 = 1.0 \<and>
   getCombinedPayout [sample_leg] = Str ''4.38'' \<and>
   getCombinedPayout [] = Num (Fin 0)"
proof -
  note t = combined_probability_formula [of "[sample_leg]" "[0.25]" 1]
  note t3 = t [THEN conjunct2, THEN conjunct2, THEN conjunct1]
  note t6 = t [THEN conjunct2, THEN conjunct2, THEN conjunct2, THEN conjunct2, THEN conjunct2,
    THEN conjunct1]
  note t8 = t [THEN conjunct2, THEN conjunct2, THEN conjunct2, THEN conjunct2, THEN conjunct2,
    THEN conjunct2, THEN conjunct2]
  have m: "map probability [sample_leg] = map Fin [0.25]" by (simp add: sample_leg_def)
  have b: "leg_count_bonus 1 = 1.0" using t6 by simp
  have a: "getCombinedProb [sample_leg] = Fin (0.25 powr 1 * 0.85 * 1.0)"
    using t3 m b by simp
  have c: "getCombinedPayout [sample_leg] = Str ''4.38''"
    using t8 sample_formatted sample_capped_odds by (simp add: sample_combined js_gt_def)
  have d: "getCombinedPayout [] = Num (Fin 0)"
    using combined_probability_formula [of "[]" "[]" 1] by (simp add: js_gt_def)
  show ?thesis using a b c d sample_combined by simp
qed

text \<open>
  The claim as written has the combined odds equal to \<^verbatim>\<open>calculatePayoutOdds\<close> at the
  capped probability. For the one sample leg the odds are \<open>372 / 85\<close> (4.3764...), and
  \<^verbatim>\<open>getCombinedPayout\<close> returns the String \<^verbatim>\<open>4.38\<close>.
\<close>

theorem combined_odds_counterexample:
  "getCombinedPayout [sample_leg] = Str ''4.38'' \<and>
   calculatePayoutOdds (js_min (getCombinedProb [sample_leg]) (Fin 0.25)) default_houseEdge =
     Fin (372 / 85) \<and>
   (438 / 100 :: real) \<noteq> 372 / 85 \<and>
   getCombinedPayout [sample_leg] \<noteq>
     Num (calculatePayoutOdds (js_min (getCombinedProb [sample_leg]) (Fin 0.25))
            default_houseEdge)"
  using sample_capped_odds by (simp add: sample_payout sample_combined)

section \<open>The odds a ticket stores\<close>

text \<open>
  Claim C4, as amended. For every ticket created by an accepted submission, the combined
  odds stored in the ticket are what \<^verbatim>\<open>getCombinedPayout\<close> gives for the legs of the
  ticket: when their combined probability is greater than \<open>0\<close>, the String that
  \<^verbatim>\<open>toFixed(2)\<close> makes of \<^verbatim>\<open>calculatePayoutOdds\<close> at the smaller of the combined
  probability and \<open>0.25\<close> (the odds rounded to two decimals); the Number \<open>0\<close> otherwise.
\<close>

theorem ticket_odds_recomputed:
  "error (placeBet now isoString s) = [] \<longrightarrow>
     (\<exists>t. history (placeBet now isoString s) = t # history s \<and>
          ticket.legs t = state.legs s \<and>
          combinedPayout t =
            (if js_gt (getCombinedProb (ticket.legs t)) (Fin 0)
             then toFixed2 (calculatePayoutOdds (js_min (getCombinedProb (ticket.legs t)) (Fin 0.25))
                              default_houseEdge)
             else Num (Fin 0)))"
proof
  assume "error (placeBet now isoString s) = []"
  then have "placeBet now isoString s =
     s\<lparr>error := [],
       history :=
         \<lparr>id_ticket = now, ticket.legs = state.legs s, ticket.betAmount = state.betAmount s,
           timestamp = isoString, result = ''pending'',
           combinedPayout = getCombinedPayout (state.legs s)\<rparr> # history s,
       state.legs := []\<rparr>"
    using placeBet_accepted by blast
  then show "\<exists>t. history (placeBet now isoString s) = t # history s \<and>
          ticket.legs t = state.legs s \<and>
          combinedPayout t =
            (if js_gt (getCombinedProb (ticket.legs t)) (Fin 0)
             then toFixed2 (calculatePayoutOdds (js_min (getCombinedProb (ticket.legs t)) (Fin 0.25))
                              default_houseEdge)
             else Num (Fin 0))"
    by (simp add: getCombinedPayout_eq)
qed

theorem ticket_odds_recomputed_witness:
  "error (placeBet sample_now sample_iso one_leg_state) = [] \<and>
   map ticket.legs (history (placeBet sample_now sample_iso one_leg_state)) = [[sample_leg]] \<and>
   map combinedPayout (history (placeBet sample_now sample_iso one_leg_state)) = [Str ''4.38''] \<and>
   toFixed2 (calculatePayoutOdds (js_min (getCombinedProb [sample_leg]) (Fin 0.25))
               default_houseEdge) = Str ''4.38''"
proof -
  have e: "error (placeBet sample_now sample_iso one_leg_state) = []" by (simp add: sample_ticket_placed)
  have h: "history one_leg_state = []" by (simp add: one_leg_state_eq)
  have l: "state.legs one_leg_state = [sample_leg]" by (simp add: one_leg_state_eq)
  from ticket_odds_recomputed [of sample_now sample_iso one_leg_state] e
  obtain t where t: "history (placeBet sample_now sample_iso one_leg_state) = t # history one_leg_state"
      "ticket.legs t = state.legs one_leg_state"
      "combinedPayout t =
            (if js_gt (getCombinedProb (ticket.legs t)) (Fin 0)
             then toFixed2 (calculatePayoutOdds (js_min (getCombinedProb (ticket.legs t)) (Fin 0.25))
                              default_houseEdge)
             else Num (Fin 0))"
    by blast
  have g: "js_gt (getCombinedProb [sample_leg]) (Fin 0)"
    by (simp add: sample_combined js_gt_def)
  have c: "combinedPayout t =
      toFixed2 (calculatePayoutOdds (js_min (getCombinedProb [sample_leg]) (Fin 0.25))
                  default_houseEdge)"
    using t(3) g unfolding t(2) l by simp
  have "t = \<lparr>id_ticket = sample_now, ticket.legs = [sample_leg], ticket.betAmount = Fin 100,
             timestamp = sample_iso, result = ''pending'', combinedPayout = Str ''4.38''\<rparr>"
    using t(1) by (simp add: sample_ticket_placed h)
  then have p: "combinedPayout t = Str ''4.38''" by simp
  show ?thesis
    using e t(1) t(2) c p by (simp add: h l)
qed

text \<open>
  The claim as written has the stored value equal to the odds themselves. The ticket of
  the sample session stores the String \<^verbatim>\<open>4.38\<close>; the odds recomputed from its leg are
  \<open>372 / 85\<close> (4.3764...).
\<close>

theorem ticket_odds_counterexample:
  "history (placeBet sample_now sample_iso one_leg_state) = [sample_ticket] \<and>
   combinedPayout sample_ticket = Str ''4.38'' \<and>
   calculatePayoutOdds (js_min (getCombinedProb (ticket.legs sample_ticket)) (Fin 0.25))
     default_houseEdge = Fin (372 / 85) \<and>
   (438 / 100 :: real) \<noteq> 372 / 85 \<and>
   combinedPayout sample_ticket \<noteq>
     Num (calculatePayoutOdds (js_min (getCombinedProb (ticket.legs sample_ticket)) (Fin 0.25))
            default_houseEdge)"
  using sample_capped_odds
  by (simp add: sample_ticket_placed sample_ticket_def sample_combined)

section \<open>The stake of a ticket\<close>

text \<open>
  Claim C6, as amended. Every ticket created by a successful submission carries the bet
  amount of the submission as its stake, and that stake times the odds of the combined
  probability is not greater than \<open>20000 * 0.10\<close>. The stake need not be positive:
  \<^verbatim>\<open>placeBet\<close> has no check of its sign, and with a parlay whose combined probability
  lies in \<open>(0, 0.25]\<close> every stake that is zero or negative creates a ticket.
\<close>

theorem ticket_stake:
  "(error (placeBet now isoString s) = [] \<longrightarrow>
      map ticket.betAmount (history (placeBet now isoString s)) =
        state.betAmount s # map ticket.betAmount (history s) \<and>
      \<not> js_gt (js_mul (state.betAmount s)
                 (calculatePayoutOdds (getCombinedProb (state.legs s)) default_houseEdge))
              (js_mul TREASURY_SIZE MAX_PAYOUT_PERCENTAGE)) \<and>
   (state.legs s \<noteq> [] \<and> getCombinedProb (state.legs s) = Fin c \<and> 0 < c \<and> c \<le> 0.25 \<and>
    state.betAmount s = Fin b \<and> b \<le> 0 \<longrightarrow>
      error (placeBet now isoString s) = [] \<and>
      map ticket.betAmount (history (placeBet now isoString s)) =
        Fin b # map ticket.betAmount (history s))"
proof (intro conjI impI)
  assume a: "error (placeBet now isoString s) = []"
  note acc = placeBet_accepted [OF a]
  from acc show "\<not> js_gt (js_mul (state.betAmount s)
                 (calculatePayoutOdds (getCombinedProb (state.legs s)) default_houseEdge))
              (js_mul TREASURY_SIZE MAX_PAYOUT_PERCENTAGE)"
    unfolding gate_limit by blast
  from acc have "placeBet now isoString s =
     s\<lparr>error := [],
       history :=
         \<lparr>id_ticket = now, ticket.legs = state.legs s, ticket.betAmount = state.betAmount s,
           timestamp = isoString, result = ''pending'',
           combinedPayout = getCombinedPayout (state.legs s)\<rparr> # history s,
       state.legs := []\<rparr>" by blast
  then show "map ticket.betAmount (history (placeBet now isoString s)) =
        state.betAmount s # map ticket.betAmount (history s)"
    by simp
next
  assume h: "state.legs s \<noteq> [] \<and> getCombinedProb (state.legs s) = Fin c \<and> 0 < c \<and> c \<le> 0.25 \<and>
    state.betAmount s = Fin b \<and> b \<le> 0"
  then have ne: "state.legs s \<noteq> []" and cp: "getCombinedProb (state.legs s) = Fin c"
    and c: "0 < c" "c \<le> 0.25" and b: "state.betAmount s = Fin b" "b \<le> 0"
    by simp_all
  have g1: "\<not> js_gt (getCombinedProb (state.legs s)) (Fin 0.25)"
    using c by (simp add: cp js_gt_def)
  have odds: "calculatePayoutOdds (Fin c) default_houseEdge = Fin ((1 / c) * 0.93)"
    using c by (simp add: calculatePayoutOdds_def default_houseEdge_def js_sub_def)
  have "0 \<le> (1 / c) * 0.93" using c by simp
  then have "b * ((1 / c) * 0.93) \<le> 0" using b(2) by (rule mult_nonpos_nonneg [rotated])
  then have g2: "\<not> js_gt (js_mul (state.betAmount s)
            (calculatePayoutOdds (getCombinedProb (state.legs s)) default_houseEdge)) (Fin 2000)"
    unfolding cp odds b(1) by (simp add: js_gt_def)
  note acc = placeBet_accept [OF ne g1 g2, of now isoString]
  show "error (placeBet now isoString s) = []"
    by (subst acc) simp
  show "map ticket.betAmount (history (placeBet now isoString s)) =
        Fin b # map ticket.betAmount (history s)"
    by (subst acc) (simp add: b(1))
qed

theorem ticket_stake_witness:
  "error (placeBet sample_now sample_iso (setBetAmount (Fin 0) one_leg_state)) = [] \<and>
   map ticket.betAmount (history (placeBet sample_now sample_iso (setBetAmount (Fin 0) one_leg_state))) = [Fin 0] \<and>
   error (placeBet sample_now sample_iso one_leg_state) = [] \<and>
   map ticket.betAmount (history (placeBet sample_now sample_iso one_leg_state)) = [Fin 100]"
proof -
  let ?z = "setBetAmount (Fin 0) one_leg_state"
  have z: "state.legs ?z \<noteq> [] \<and> getCombinedProb (state.legs ?z) = Fin 0.2125 \<and>
      (0::real) < 0.2125 \<and> (0.2125::real) \<le> 0.25 \<and> state.betAmount ?z = Fin 0 \<and> (0::real) \<le> 0"
    by (simp add: setBetAmount_def one_leg_state_eq sample_combined)
  have a: "error (placeBet sample_now sample_iso ?z) = [] \<and>
      map ticket.betAmount (history (placeBet sample_now sample_iso ?z)) = Fin 0 # map ticket.betAmount (history ?z)"
    using ticket_stake [of sample_now sample_iso ?z "0.2125" 0] z by blast
  have e: "error (placeBet sample_now sample_iso one_leg_state) = []" by (simp add: sample_ticket_placed)
  have b: "map ticket.betAmount (history (placeBet sample_now sample_iso one_leg_state)) =
      state.betAmount one_leg_state # map ticket.betAmount (history one_leg_state)"
    using ticket_stake [of sample_now sample_iso one_leg_state "0.2125" 0] e by blast
  show ?thesis
    using a e b by (simp add: setBetAmount_def one_leg_state_eq)
qed

text \<open>
  The claim as written has no ticket for a stake that is not positive. The sample
  session with the bet amount set to \<open>0\<close> places a ticket whose stake is \<open>0\<close>.
\<close>

theorem zero_stake_counterexample:
  "state.betAmount (setBetAmount (Fin 0) one_leg_state) = Fin 0 \<and>
   \<not> js_gt (state.betAmount (setBetAmount (Fin 0) one_leg_state)) (Fin 0) \<and>
   history (setBetAmount (Fin 0) one_leg_state) = [] \<and>
   history (placeBet sample_now sample_iso (setBetAmount (Fin 0) one_leg_state)) =
     [\<lparr>id_ticket = sample_now, ticket.legs = [sample_leg], ticket.betAmount = Fin 0,
        timestamp = sample_iso, result = ''pending'', combinedPayout = Str ''4.38''\<rparr>]"
  using placeBet_accept [of "setBetAmount (Fin 0) one_leg_state" sample_now sample_iso]
    sample_stake_payout [of 0]
  by (simp add: setBetAmount_def one_leg_state_eq sample_combined js_gt_def sample_payout)

section \<open>The range of every leg\<close>

text \<open>
  Claim C8. \<^verbatim>\<open>isRangeValid\<close> is true exactly when the width
  \<open>(upper - lower) / price\<close> satisfies \<open>0.01 \<le> width\<close> and \<open>width \<le> 0.30\<close>, and then the
  width is a finite number between the two limits. \<^verbatim>\<open>addLeg\<close> changes the parlay only
  when the range is valid at the live price, and then it appends one leg with the
  bounds of the form, priced at the live price. Hence in every reachable state each leg
  of the parlay, and each leg of each ticket of the history, was valid at the price it
  was priced at.
\<close>

theorem range_invariant:
  "(isRangeValid l u price =
      (js_ge (js_div (js_sub u l) price) (Fin 0.01) \<and>
       js_le (js_div (js_sub u l) price) (Fin 0.30))) \<and>
   (isRangeValid l u price \<longrightarrow>
      (\<exists>w. js_div (js_sub u l) price = Fin w \<and> 0.01 \<le> w \<and> w \<le> 0.30)) \<and>
   (state.legs (addLeg s) \<noteq> state.legs s \<longrightarrow>
      isRangeValid (state.lowerBound s) (state.upperBound s) (livePrice s) \<and>
      (\<exists>a. state.legs (addLeg s) = state.legs s @ [a] \<and>
           leg.lowerBound a = state.lowerBound s \<and> leg.upperBound a = state.upperBound s \<and>
           priced_at a (livePrice s))) \<and>
   (reachable s \<longrightarrow>
      (\<forall>a \<in> set (state.legs s). \<exists>p. priced_at a p) \<and>
      (\<forall>t \<in> set (history s). \<forall>a \<in> set (ticket.legs t). \<exists>p. priced_at a p))"
  using isRangeValid_width [of l u price] isRangeValid_finite [of l u price]
    addLeg_appends [of s] reachable_priced [of s]
  by blast

theorem range_invariant_witness:
  "reachable one_leg_state \<and> state.legs one_leg_state = [sample_leg] \<and>
   (\<exists>p. priced_at sample_leg p) \<and>
   isRangeValid (Fin 45000) (Fin 55000) (Fin 50000) \<and>
   js_div (js_sub (Fin 55000) (Fin 45000)) (Fin 50000) = Fin 0.2 \<and>
   state.legs (addLeg one_leg_state) = [sample_leg, sample_leg]"
proof -
  note t = range_invariant [of "Fin 45000" "Fin 55000" "Fin 50000" one_leg_state]
  have l: "state.legs one_leg_state = [sample_leg]" by (simp add: one_leg_state_eq)
  have "\<forall>a \<in> set (state.legs one_leg_state). \<exists>p. priced_at a p"
    using t one_leg_reachable by blast
  then have a: "\<exists>p. priced_at sample_leg p" by (simp add: l)
  have v: "isRangeValid (Fin 45000) (Fin 55000) (Fin 50000)"
    using t by (simp add: js_sub_def js_ge_def)
  have w: "js_div (js_sub (Fin 55000) (Fin 45000)) (Fin 50000) = Fin 0.2"
    by (simp add: js_sub_def)
  have two: "state.legs (addLeg one_leg_state) = [sample_leg, sample_leg]"
    using two_leg_state_eq by (simp add: two_leg_state_def)
  show ?thesis using one_leg_reachable l a v w two by blast
qed

end
